theory Spec2Isabelle
  imports Main "HOL-Library.Word"
begin

section \<open>Data model of the account database\<close>

text \<open>
  The Go package \<^verbatim>\<open>database\<close> keeps \<^verbatim>\<open>accounts map[AccountID]Account\<close>.
  An \<^verbatim>\<open>AccountID\<close> is a hex string; unsigned 64-bit fields are \<open>64 word\<close>, so
  \<open>+\<close>, \<open>-\<close> and \<open>*\<close> wrap exactly as Go's \<^verbatim>\<open>uint64\<close> does.
\<close>

type_synonym AccountID = string
type_synonym u64 = "64 word"
type_synonym u16 = "16 word"

text \<open>
  Modelled from the spec: the declaration of \<^verbatim>\<open>Account\<close> is in a file of the package
  that is not part of the sources at hand; the spec gives \<^verbatim>\<open>{Balance: u64, Nonce: u64}\<close>.
\<close>

record Account =
  Balance :: u64
  Nonce :: u64

text \<open>
  Modelled from the spec: the declaration of \<^verbatim>\<open>BlockTx\<close> is missing as well. The fields
  are those the spec lists; the transaction's own nonce is \<open>tx_Nonce\<close>, since a record
  field name is global in HOL.
\<close>

record BlockTx =
  ChainID :: u16
  tx_Nonce :: u64
  ToID :: AccountID
  Value :: u64
  Tip :: u64
  Data :: "8 word list"
  GasPrice :: u64
  GasUnits :: u64
  Signature :: "8 word list"

text \<open>
  Modelled from the spec: \<^verbatim>\<open>BlockHeader\<close> and \<^verbatim>\<open>Block\<close>. \<open>Trans\<close> is the ordered
  sequence that \<^verbatim>\<open>block.Trans.Values()\<close> returns.
\<close>

record BlockHeader =
  Number :: u64
  PrevBlockHash :: string
  TimeStamp :: u64
  BeneficiaryID :: AccountID
  Difficulty :: u16
  MiningReward :: u64
  StateRoot :: string
  TransRoot :: string
  hdr_Nonce :: u64

record Block =
  Header :: BlockHeader
  Trans :: "BlockTx list"

text \<open>
  Modelled from the spec: \<^verbatim>\<open>genesis.Genesis\<close>. Go ranges over the map
  \<^verbatim>\<open>Balances\<close> in an unspecified order; the association list fixes one order.
\<close>

record Genesis =
  gen_ChainID :: u16
  gen_MiningReward :: u64
  gen_GasPrice :: u64
  gen_TransPerBlock :: "32 word"
  gen_Difficulty :: "32 word"
  gen_Balances :: "(string \<times> u64) list"

text \<open>
  Go errors are values built by \<^verbatim>\<open>fmt.Errorf\<close>; each message of
  \<^verbatim>\<open>ApplyTransaction\<close> is one constructor carrying the values it formats. Errors of
  collaborators outside the package (storage, block validation, identifier parsing,
  peer set) are opaque: \<open>External\<close>.
\<close>

datatype error =
    External string
  | InvalidSignature error
  | WrongChainID u16 u16
  | SelfTransfer AccountID AccountID
  | NonceTooSmall u64 u64
  | InsufficientFunds u64 u64

record Database =
  genesis :: Genesis
  latestBlock :: Block
  accounts :: "AccountID \<rightharpoonup> Account"

text \<open>Reading a Go map at a missing key gives the zero value of the element type.\<close>

definition zeroAccount :: Account where
  "zeroAccount = \<lparr>Balance = 0, Nonce = 0\<rparr>"

definition lookup :: "(AccountID \<rightharpoonup> Account) \<Rightarrow> AccountID \<Rightarrow> Account" where
  "lookup m k = (case m k of None \<Rightarrow> zeroAccount | Some a \<Rightarrow> a)"

section \<open>ApplyTransaction\<close>

text \<open>
  The gas fee (database.go, lines 157 to 160): the product of price and units in
  \<^verbatim>\<open>uint64\<close>, replaced by the sender's whole balance when it is larger than that.
\<close>

definition clampedGasFee :: "BlockTx \<Rightarrow> Account \<Rightarrow> u64" where
  "clampedGasFee tx from0 =
    (if GasPrice tx * GasUnits tx > Balance from0 then Balance from0
     else GasPrice tx * GasUnits tx)"

text \<open>
  \<^verbatim>\<open>Database.ApplyTransaction\<close> (database.go, lines 138 to 205). Signature recovery
  \<^verbatim>\<open>tx.FromAccount()\<close> lives outside the sources at hand and is the parameter
  \<open>FromAccount\<close>. The three accounts are copied out of the map (\<open>from0\<close>, \<open>to0\<close>,
  \<open>bnfc0\<close>), changed as local values, and written back in the order of the source.
  The result is the returned error (\<open>None\<close> for \<^verbatim>\<open>nil\<close>) and the database after the call.
\<close>

definition ApplyTransaction ::
  "(BlockTx \<Rightarrow> error + AccountID) \<Rightarrow> Database \<Rightarrow> Block \<Rightarrow> BlockTx \<Rightarrow> error option \<times> Database" where
  "ApplyTransaction FromAccount db block tx =
    (case FromAccount tx of
       Inl err \<Rightarrow> (Some (InvalidSignature err), db)
     | Inr fromID \<Rightarrow>
        (let bnfcID = BeneficiaryID (Header block);
             from0 = lookup (accounts db) fromID;
             to0 = lookup (accounts db) (ToID tx);
             bnfc0 = lookup (accounts db) bnfcID;
             gasFee = clampedGasFee tx from0;
             from1 = from0\<lparr>Balance := Balance from0 - gasFee\<rparr>;
             bnfc1 = bnfc0\<lparr>Balance := Balance bnfc0 + gasFee\<rparr>;
             db1 = db\<lparr>accounts := (accounts db)(fromID \<mapsto> from1, bnfcID \<mapsto> bnfc1)\<rparr>
         in
           if ChainID tx \<noteq> gen_ChainID (genesis db) then
             (Some (WrongChainID (ChainID tx) (gen_ChainID (genesis db))), db1)
           else if fromID = ToID tx then
             (Some (SelfTransfer fromID (ToID tx)), db1)
           else if tx_Nonce tx \<le> Nonce from1 then
             (Some (NonceTooSmall (Nonce from1) (tx_Nonce tx)), db1)
           else if Balance from1 = 0 \<or> Balance from1 < Value tx + Tip tx then
             (Some (InsufficientFunds (Balance from1) (Value tx + Tip tx)), db1)
           else
             (let from2 = from1\<lparr>Balance := Balance from1 - Value tx\<rparr>;
                  to1 = to0\<lparr>Balance := Balance to0 + Value tx\<rparr>;
                  from3 = from2\<lparr>Balance := Balance from2 - Tip tx\<rparr>;
                  bnfc2 = bnfc1\<lparr>Balance := Balance bnfc1 + Tip tx\<rparr>;
                  from4 = from3\<lparr>Nonce := tx_Nonce tx\<rparr>
              in (None,
                  db1\<lparr>accounts :=
                    (accounts db1)(fromID \<mapsto> from4, ToID tx \<mapsto> to1, bnfcID \<mapsto> bnfc2)\<rparr>))))"

text \<open>\<^verbatim>\<open>Database.ApplyMiningReward\<close> (database.go, lines 126 to 134).\<close>

definition ApplyMiningReward :: "Database \<Rightarrow> Block \<Rightarrow> Database" where
  "ApplyMiningReward db block =
    (let account0 = lookup (accounts db) (BeneficiaryID (Header block));
         account1 = account0\<lparr>Balance := Balance account0 + MiningReward (Header block)\<rparr>
     in db\<lparr>accounts := (accounts db)(BeneficiaryID (Header block) \<mapsto> account1)\<rparr>)"

section \<open>Block replay\<close>

text \<open>
  The \<^verbatim>\<open>Iterator\<close> interface (database.go, lines 24 to 27) is a stateful cursor.
  \<open>'s\<close> is the cursor's state: \<open>Next\<close> returns a block and an error and moves the
  cursor, \<open>Done\<close> reads it.
\<close>

record 's Iterator =
  Next :: "'s \<Rightarrow> (Block \<times> error option) \<times> 's"
  Done :: "'s \<Rightarrow> bool"

text \<open>The zero value of \<^verbatim>\<open>Block\<close>, as \<^verbatim>\<open>var latestBlock Block\<close> declares it.\<close>

definition zeroBlock :: Block where
  "zeroBlock =
    \<lparr>Header = \<lparr>Number = 0, PrevBlockHash = [], TimeStamp = 0, BeneficiaryID = [],
       Difficulty = 0, MiningReward = 0, StateRoot = [], TransRoot = [], hdr_Nonce = 0\<rparr>,
     Trans = []\<rparr>"

text \<open>
  The loop of \<^verbatim>\<open>ReadAllBlocks\<close> (database.go, lines 235 to 249):
  \<^verbatim>\<open>for block, err := iter.Next(); !iter.Done(); block, err = iter.Next()\<close>.
  Every round calls \<open>Next\<close>, then asks \<open>Done\<close> on the moved cursor, and only then
  looks at the error and the block. A cursor that never reports \<open>Done\<close> and never
  fails keeps the loop running: the result is \<open>None\<close>. \<^verbatim>\<open>ValidateBlock\<close> belongs
  to another file and is a parameter; it gets the block and the previous one, which
  the loop keeps in \<^verbatim>\<open>latestBlock\<close> (here \<open>latest\<close>).
\<close>

partial_function (option) ReadAllBlocks_loop ::
  "'s Iterator \<Rightarrow> (Block \<Rightarrow> Block \<Rightarrow> error option) \<Rightarrow> bool \<Rightarrow> 's \<Rightarrow> Block \<Rightarrow> Block list
     \<Rightarrow> (error + Block list) option" where
  "ReadAllBlocks_loop iter ValidateBlock validate s latest blocks =
    (let block = fst (fst (Next iter s));
         err = snd (fst (Next iter s));
         s' = snd (Next iter s)
     in if Done iter s' then Some (Inr blocks)
        else (case err of
                Some e \<Rightarrow> Some (Inl e)
              | None \<Rightarrow>
                 (case (if validate then ValidateBlock block latest else None) of
                    Some e \<Rightarrow> Some (Inl e)
                  | None \<Rightarrow>
                     ReadAllBlocks_loop iter ValidateBlock validate s' block (blocks @ [block]))))"

text \<open>\<open>s0\<close> is the fresh cursor that \<^verbatim>\<open>db.storage.ForEach()\<close> hands out.\<close>

definition ReadAllBlocks ::
  "'s Iterator \<Rightarrow> (Block \<Rightarrow> Block \<Rightarrow> error option) \<Rightarrow> 's \<Rightarrow> bool \<Rightarrow> (error + Block list) option" where
  "ReadAllBlocks iter ValidateBlock s0 validate =
     ReadAllBlocks_loop iter ValidateBlock validate s0 zeroBlock []"

text \<open>
  \<^verbatim>\<open>New\<close> (database.go, lines 44 to 81). \<open>seedBalances\<close> is the loop over
  \<^verbatim>\<open>genesis.Balances\<close> with the parameter \<open>ToAccountID\<close>; \<open>applyTrans\<close> is
  the inner loop of the replay, which calls \<open>ApplyTransaction\<close> as a statement and so
  drops the error it returns; \<open>replayBlocks\<close> is the outer loop.
\<close>

fun seedBalances ::
  "(string \<Rightarrow> error + AccountID) \<Rightarrow> (string \<times> u64) list \<Rightarrow> (AccountID \<rightharpoonup> Account)
     \<Rightarrow> error + (AccountID \<rightharpoonup> Account)" where
  "seedBalances ToAccountID [] m = Inr m"
| "seedBalances ToAccountID ((accountStr, balance) # rest) m =
     (case ToAccountID accountStr of
        Inl err \<Rightarrow> Inl err
      | Inr accountID \<Rightarrow>
          seedBalances ToAccountID rest (m(accountID \<mapsto> \<lparr>Balance = balance, Nonce = 0\<rparr>)))"

fun applyTrans ::
  "(BlockTx \<Rightarrow> error + AccountID) \<Rightarrow> Database \<Rightarrow> Block \<Rightarrow> BlockTx list \<Rightarrow> Database" where
  "applyTrans FromAccount db block [] = db"
| "applyTrans FromAccount db block (tx # txs) =
     applyTrans FromAccount (snd (ApplyTransaction FromAccount db block tx)) block txs"

fun replayBlocks ::
  "(BlockTx \<Rightarrow> error + AccountID) \<Rightarrow> Database \<Rightarrow> Block list \<Rightarrow> Database" where
  "replayBlocks FromAccount db [] = db"
| "replayBlocks FromAccount db (block # rest) =
     replayBlocks FromAccount
       (ApplyMiningReward (applyTrans FromAccount db block (Trans block)) block) rest"

definition New ::
  "(BlockTx \<Rightarrow> error + AccountID) \<Rightarrow> (string \<Rightarrow> error + AccountID) \<Rightarrow>
   (Block \<Rightarrow> Block \<Rightarrow> error option) \<Rightarrow> 's Iterator \<Rightarrow> 's \<Rightarrow> Genesis \<Rightarrow> (error + Database) option" where
  "New FromAccount ToAccountID ValidateBlock iter s0 gen =
    (case ReadAllBlocks iter ValidateBlock s0 True of
       None \<Rightarrow> None
     | Some (Inl err) \<Rightarrow> Some (Inl err)
     | Some (Inr blocks) \<Rightarrow>
        (case seedBalances ToAccountID (gen_Balances gen) Map.empty of
           Inl err \<Rightarrow> Some (Inl err)
         | Inr accts \<Rightarrow>
            Some (Inr (replayBlocks FromAccount
              \<lparr>genesis = gen,
               latestBlock = (if length blocks > 0 then blocks ! (length blocks - 1) else zeroBlock),
               accounts = accts\<rparr> blocks))))"

text \<open>
  What a cursor does over its first calls, for stating properties of the loop:
  the cursor after \<open>n\<close> calls of \<open>Next\<close>, and the block and the error that call
  number \<open>i\<close> (counted from 0) returns.
\<close>

primrec cursorAfter :: "'s Iterator \<Rightarrow> 's \<Rightarrow> nat \<Rightarrow> 's" where
  "cursorAfter iter s 0 = s"
| "cursorAfter iter s (Suc n) = cursorAfter iter (snd (Next iter s)) n"

definition blockAt :: "'s Iterator \<Rightarrow> 's \<Rightarrow> nat \<Rightarrow> Block" where
  "blockAt iter s i = fst (fst (Next iter (cursorAfter iter s i)))"

definition errAt :: "'s Iterator \<Rightarrow> 's \<Rightarrow> nat \<Rightarrow> error option" where
  "errAt iter s i = snd (fst (Next iter (cursorAfter iter s i)))"

definition doneAfter :: "'s Iterator \<Rightarrow> 's \<Rightarrow> nat \<Rightarrow> bool" where
  "doneAfter iter s i = Done iter (cursorAfter iter s (Suc i))"

text \<open>The block that the loop holds as \<^verbatim>\<open>latestBlock\<close> when call \<open>i\<close> returns.\<close>

definition prevAt :: "'s Iterator \<Rightarrow> 's \<Rightarrow> Block \<Rightarrow> nat \<Rightarrow> Block" where
  "prevAt iter s latest i = (if i = 0 then latest else blockAt iter s (i - 1))"

text \<open>
  Call \<open>i\<close> lets the loop go round once more: \<open>Done\<close> is false after it, it
  returns no error, and the block it returns is valid against the previous one when
  validation is on.
\<close>

definition goodCall ::
  "'s Iterator \<Rightarrow> (Block \<Rightarrow> Block \<Rightarrow> error option) \<Rightarrow> bool \<Rightarrow> 's \<Rightarrow> Block \<Rightarrow> nat \<Rightarrow> bool" where
  "goodCall iter ValidateBlock validate s latest i =
     (\<not> doneAfter iter s i \<and> errAt iter s i = None \<and>
      (validate \<longrightarrow> ValidateBlock (blockAt iter s i) (prevAt iter s latest i) = None))"

text \<open>
  The shape of a list of blocks that the loop returns: the list it started with,
  followed by the blocks of the calls before the first one after which \<open>Done\<close> holds.
\<close>

definition returnedBlocks ::
  "'s Iterator \<Rightarrow> (Block \<Rightarrow> Block \<Rightarrow> error option) \<Rightarrow> bool \<Rightarrow> 's \<Rightarrow> Block \<Rightarrow> Block list
     \<Rightarrow> (error + Block list) \<Rightarrow> bool" where
  "returnedBlocks iter ValidateBlock validate s latest blocks r =
    (\<forall>bs. r = Inr bs \<longrightarrow>
       (\<exists>n. (\<forall>i<n. goodCall iter ValidateBlock validate s latest i) \<and> doneAfter iter s n \<and>
            bs = blocks @ map (blockAt iter s) [0..<n]))"

section \<open>Peer bookkeeping of the worker\<close>

text \<open>
  Modelled from the spec: \<^verbatim>\<open>Peer\<close> is \<^verbatim>\<open>{Host: string}\<close>. The worker reports
  through \<^verbatim>\<open>evHandler\<close>; the messages of \<^verbatim>\<open>addNewPeers\<close> are the constructors of
  \<open>event\<close>.
\<close>

record Peer =
  Host :: string

datatype event =
    AddNewPeersStarted
  | AddingPeerNode Peer
  | AddNewPeersCompleted

text \<open>
  \<^verbatim>\<open>bcWorker.addNewPeers\<close> (worker.go, lines 411 to 425). \<^verbatim>\<open>State.addPeerNode\<close>
  is outside the sources at hand: it is the parameter \<open>addPeerNode\<close>, which takes the
  state \<open>'st\<close> of the node and a peer and returns an error or \<^verbatim>\<open>nil\<close> and the state
  after the call. The result of \<open>addNewPeers\<close> is the returned error, the state and
  the events reported, the deferred one last.
\<close>

fun addNewPeers_loop ::
  "('st \<Rightarrow> Peer \<Rightarrow> error option \<times> 'st) \<Rightarrow> Peer list \<Rightarrow> 'st \<Rightarrow> event list
     \<Rightarrow> error option \<times> 'st \<times> event list" where
  "addNewPeers_loop addPeerNode [] st evs = (None, st, evs)"
| "addNewPeers_loop addPeerNode (peer # rest) st evs =
     (case addPeerNode st peer of
        (Some err, st') \<Rightarrow> (None, st', evs)
      | (None, st') \<Rightarrow> addNewPeers_loop addPeerNode rest st' (evs @ [AddingPeerNode peer]))"

definition addNewPeers ::
  "('st \<Rightarrow> Peer \<Rightarrow> error option \<times> 'st) \<Rightarrow> Peer list \<Rightarrow> 'st \<Rightarrow> error option \<times> 'st \<times> event list" where
  "addNewPeers addPeerNode knownPeers st =
     (case addNewPeers_loop addPeerNode knownPeers st [AddNewPeersStarted] of
        (res, st', evs) \<Rightarrow> (res, st', evs @ [AddNewPeersCompleted]))"

text \<open>The state of the node after \<open>addPeerNode\<close> has been called on every peer of a list.\<close>

definition afterAdding :: "('st \<Rightarrow> Peer \<Rightarrow> error option \<times> 'st) \<Rightarrow> 'st \<Rightarrow> Peer list \<Rightarrow> 'st" where
  "afterAdding addPeerNode st peers = fold (\<lambda>peer st'. snd (addPeerNode st' peer)) peers st"

section \<open>Concrete data for running the model\<close>

text \<open>
  A genesis with chain id 1, a block whose header names a beneficiary, a database over
  a given account map, and the two outcomes of signature recovery.
\<close>

definition exGenesis :: Genesis where
  "exGenesis =
    \<lparr>gen_ChainID = 1, gen_MiningReward = 700, gen_GasPrice = 1, gen_TransPerBlock = 2,
     gen_Difficulty = 6, gen_Balances = [(''A'', 1000)]\<rparr>"

definition exBlock :: "AccountID \<Rightarrow> BlockTx list \<Rightarrow> Block" where
  "exBlock bnfcID txs =
    \<lparr>Header = \<lparr>Number = 1, PrevBlockHash = [], TimeStamp = 0, BeneficiaryID = bnfcID,
       Difficulty = 6, MiningReward = 700, StateRoot = [], TransRoot = [], hdr_Nonce = 0\<rparr>,
     Trans = txs\<rparr>"

definition exDb :: "(AccountID \<rightharpoonup> Account) \<Rightarrow> Database" where
  "exDb accts = \<lparr>genesis = exGenesis, latestBlock = zeroBlock, accounts = accts\<rparr>"

definition signedBy :: "AccountID \<Rightarrow> BlockTx \<Rightarrow> error + AccountID" where
  "signedBy fromID tx = Inr fromID"

definition badSignature :: "BlockTx \<Rightarrow> error + AccountID" where
  "badSignature tx = Inl (External ''recovery failed'')"

text \<open>A transfer to \<open>''B''\<close> on chain 1 with the given nonce, value, tip and gas.\<close>

definition exTx :: "u64 \<Rightarrow> u64 \<Rightarrow> u64 \<Rightarrow> u64 \<Rightarrow> u64 \<Rightarrow> BlockTx" where
  "exTx nonce val tip price units =
    \<lparr>ChainID = 1, tx_Nonce = nonce, ToID = ''B'', Value = val, Tip = tip, Data = [],
     GasPrice = price, GasUnits = units, Signature = []\<rparr>"

text \<open>
  An in-memory cursor: the state is the list of results that \<open>Next\<close> has still to
  return and the flag that \<open>Done\<close> reads. Past the end \<open>Next\<close> returns the zero
  block with no error and sets the flag.
\<close>

definition scriptIterator :: "((Block \<times> error option) list \<times> bool) Iterator" where
  "scriptIterator =
    \<lparr>Next = (\<lambda>(script, eoc). case script of
                 [] \<Rightarrow> ((zeroBlock, None), ([], True))
               | r # rest \<Rightarrow> (r, (rest, False))),
     Done = snd\<rparr>"

text \<open>A peer set as a list of hosts: adding a host that is already there is an error.\<close>

definition addToList :: "string list \<Rightarrow> Peer \<Rightarrow> error option \<times> string list" where
  "addToList hosts peer =
    (if Host peer \<in> set hosts then (Some (External ''peer already exists''), hosts)
     else (None, hosts @ [Host peer]))"

text \<open>
  A peer set that also keeps the list of every peer \<open>addPeerNode\<close> was called with.
\<close>

definition addLogged ::
  "string list \<times> Peer list \<Rightarrow> Peer \<Rightarrow> error option \<times> (string list \<times> Peer list)" where
  "addLogged st peer =
    (case addToList (fst st) peer of (res, hosts) \<Rightarrow> (res, (hosts, snd st @ [peer])))"

text \<open>
  A block validation that checks the block number only, and an identifier parser that
  accepts every nonempty string.
\<close>

definition checkNumber :: "Block \<Rightarrow> Block \<Rightarrow> error option" where
  "checkNumber block prev =
    (if Number (Header block) = Number (Header prev) + 1 then None
     else Some (External ''wrong block number''))"

definition parseAccountID :: "string \<Rightarrow> error + AccountID" where
  "parseAccountID str = (if str = [] then Inl (External ''invalid account'') else Inr str)"

text \<open>The sum of the balances of all accounts in the map, as exact integers.\<close>

definition totalBalance :: "(AccountID \<rightharpoonup> Account) \<Rightarrow> nat" where
  "totalBalance m = (\<Sum>k \<in> dom m. unat (Balance (lookup m k)))"

section \<open>Facts used by the evaluations\<close>

lemmas ex_defs =
  ApplyTransaction_def clampedGasFee_def signedBy_def badSignature_def exDb_def
  exBlock_def exTx_def exGenesis_def lookup_def zeroAccount_def Let_def


text \<open>When the sum does not overflow, that check compares exact integers.\<close>

lemma less_sum_nowrap:
  fixes b v t :: u64
  assumes "unat v + unat t < 2 ^ 64"
  shows "b < v + t \<longleftrightarrow> unat b < unat v + unat t"
proof -
  from assms have "unat (v + t) = unat v + unat t"
    by (simp add: unat_word_ariths)
  then show ?thesis by (simp add: word_less_nat_alt)
qed





lemma wrapped_debit: "(- 18446744073709551607 :: u64) = 9"
  by (simp add: word_uint_eq_iff)

section \<open>Signature recovery fails\<close>

text \<open>
  C10. If \<^verbatim>\<open>tx.FromAccount()\<close> fails, \<open>ApplyTransaction\<close> returns the
  invalid-signature error and the database, hence the account map, is the one it was
  given: the recovery comes before any account is read or written, so not even the gas
  fee is charged.
\<close>

theorem ApplyTransaction_invalid_signature:
  "FromAccount tx = Inl err \<Longrightarrow>
   ApplyTransaction FromAccount db block tx = (Some (InvalidSignature err), db)"
  by (simp add: ApplyTransaction_def)

text \<open>The theorem at a transaction whose signature does not recover, sender balance 1000.\<close>

theorem ApplyTransaction_invalid_signature_witness:
  "badSignature (exTx 1 100 10 1 5) = Inl (External ''recovery failed'') \<and>
   ApplyTransaction badSignature (exDb [''A'' \<mapsto> \<lparr>Balance = 1000, Nonce = 0\<rparr>])
     (exBlock ''M'' []) (exTx 1 100 10 1 5) =
   (Some (InvalidSignature (External ''recovery failed'')),
    exDb [''A'' \<mapsto> \<lparr>Balance = 1000, Nonce = 0\<rparr>])"
  using ApplyTransaction_invalid_signature
    [of badSignature "exTx 1 100 10 1 5" "External ''recovery failed''"
        "exDb [''A'' \<mapsto> \<lparr>Balance = 1000, Nonce = 0\<rparr>]" "exBlock ''M'' []"]
  by (simp add: badSignature_def)

section \<open>A transaction that passes the checks\<close>




section \<open>The insufficient-funds check\<close>

text \<open>
  C6, as amended. For a transaction that passes signature recovery, the chain-id
  check, the self-transfer check and the nonce check, and whose value and tip add up
  to at most \<open>2^64 - 1\<close>, \<open>ApplyTransaction\<close> fails with the insufficient-funds
  error exactly when the sender's balance after the gas fee is zero or is less than
  value plus tip; otherwise it returns no error.
\<close>

theorem ApplyTransaction_insufficient_funds_iff:
  assumes rec: "FromAccount tx = Inr fromID"
    and chain: "ChainID tx = gen_ChainID (genesis db)"
    and self: "fromID \<noteq> ToID tx"
    and nonce: "Nonce (lookup (accounts db) fromID) < tx_Nonce tx"
    and nowrap: "unat (Value tx) + unat (Tip tx) < 2 ^ 64"
    and bal: "bal = Balance (lookup (accounts db) fromID)
                     - clampedGasFee tx (lookup (accounts db) fromID)"
  shows "fst (ApplyTransaction FromAccount db block tx) =
     (if bal = 0 \<or> unat bal < unat (Value tx) + unat (Tip tx)
      then Some (InsufficientFunds bal (Value tx + Tip tx)) else None)"
proof -
  have nn: "\<not> tx_Nonce tx \<le> Nonce (lookup (accounts db) fromID)"
    using nonce by simp
  have cmp: "bal < Value tx + Tip tx \<longleftrightarrow> unat bal < unat (Value tx) + unat (Tip tx)"
    using nowrap by (rule less_sum_nowrap)
  have "fst (ApplyTransaction FromAccount db block tx) =
     (if bal = 0 \<or> bal < Value tx + Tip tx
      then Some (InsufficientFunds bal (Value tx + Tip tx)) else None)"
    using rec chain self nn bal
    unfolding ApplyTransaction_def Let_def
    by simp
  then show ?thesis by (simp only: cmp)
qed

text \<open>
  The theorem at value 100, tip 10 and gas fee 5: a sender holding 115 has exactly
  110 left after the fee and succeeds; a sender holding 114 has 109 left and fails.
\<close>

theorem ApplyTransaction_insufficient_funds_iff_witness:
  "fst (ApplyTransaction (signedBy ''A'') (exDb [''A'' \<mapsto> \<lparr>Balance = 115, Nonce = 0\<rparr>])
         (exBlock ''M'' []) (exTx 1 100 10 1 5)) = None \<and>
   fst (ApplyTransaction (signedBy ''A'') (exDb [''A'' \<mapsto> \<lparr>Balance = 114, Nonce = 0\<rparr>])
         (exBlock ''M'' []) (exTx 1 100 10 1 5)) = Some (InsufficientFunds 109 110)"
  using ApplyTransaction_insufficient_funds_iff [of "signedBy ''A''" "exTx 1 100 10 1 5" "''A''"
      "exDb [''A'' \<mapsto> \<lparr>Balance = 115, Nonce = 0\<rparr>]" 110 "exBlock ''M'' []"]
    ApplyTransaction_insufficient_funds_iff [of "signedBy ''A''" "exTx 1 100 10 1 5" "''A''"
      "exDb [''A'' \<mapsto> \<lparr>Balance = 114, Nonce = 0\<rparr>]" 109 "exBlock ''M'' []"]
  by (simp add: clampedGasFee_def signedBy_def exDb_def exBlock_def exTx_def exGenesis_def
        lookup_def zeroAccount_def)

text \<open>
  The claim as it is written fails for a sender holding 5 who sends value 0 and tip 0
  with gas 1 times 5: the balance after the fee, 0, is not less than value plus tip,
  and the call fails with the insufficient-funds error all the same.
\<close>

theorem ApplyTransaction_zero_balance_counterexample:
  "\<not> ((5::u64) - clampedGasFee (exTx 1 0 0 1 5) \<lparr>Balance = 5, Nonce = 0\<rparr>
        < Value (exTx 1 0 0 1 5) + Tip (exTx 1 0 0 1 5)) \<and>
   fst (ApplyTransaction (signedBy ''A'') (exDb [''A'' \<mapsto> \<lparr>Balance = 5, Nonce = 0\<rparr>])
         (exBlock ''M'' []) (exTx 1 0 0 1 5)) = Some (InsufficientFunds 0 0)"
  by (simp add: ex_defs)

section \<open>The gas charge of a transaction that fails a check\<close>

text \<open>
  The fee is the smaller of the product of price and units, taken in \<^verbatim>\<open>uint64\<close>,
  and the sender's balance.
\<close>

lemma clampedGasFee_min:
  "unat (clampedGasFee tx a) = min (unat (GasPrice tx * GasUnits tx)) (unat (Balance a))"
  by (simp add: clampedGasFee_def word_less_nat_alt min_def)

text \<open>
  When the sender is not the beneficiary of the block and a check fails, the sender's
  entry is the old one less the fee, the beneficiary's entry is the old one plus the
  fee, and no other entry changes.
\<close>

lemma ApplyTransaction_failed_check_distinct:
  assumes rec: "FromAccount tx = Inr fromID"
    and fail: "fst (ApplyTransaction FromAccount db block tx) \<noteq> None"
    and b1: "BeneficiaryID (Header block) \<noteq> fromID"
  shows "lookup (accounts (snd (ApplyTransaction FromAccount db block tx))) fromID =
           (lookup (accounts db) fromID)
             \<lparr>Balance := Balance (lookup (accounts db) fromID)
                          - clampedGasFee tx (lookup (accounts db) fromID)\<rparr>"
    and "lookup (accounts (snd (ApplyTransaction FromAccount db block tx)))
           (BeneficiaryID (Header block)) =
           (lookup (accounts db) (BeneficiaryID (Header block)))
             \<lparr>Balance := Balance (lookup (accounts db) (BeneficiaryID (Header block)))
                          + clampedGasFee tx (lookup (accounts db) fromID)\<rparr>"
    and "k \<noteq> fromID \<Longrightarrow> k \<noteq> BeneficiaryID (Header block) \<Longrightarrow>
         accounts (snd (ApplyTransaction FromAccount db block tx)) k = accounts db k"
proof -
  have upd: "accounts (snd (ApplyTransaction FromAccount db block tx)) =
    (accounts db)
      (fromID \<mapsto>
         (lookup (accounts db) fromID)
           \<lparr>Balance := Balance (lookup (accounts db) fromID)
                        - clampedGasFee tx (lookup (accounts db) fromID)\<rparr>,
       BeneficiaryID (Header block) \<mapsto>
         (lookup (accounts db) (BeneficiaryID (Header block)))
           \<lparr>Balance := Balance (lookup (accounts db) (BeneficiaryID (Header block)))
                        + clampedGasFee tx (lookup (accounts db) fromID)\<rparr>)"
    using rec fail
    unfolding ApplyTransaction_def Let_def
    by (auto split: if_splits)
  show "lookup (accounts (snd (ApplyTransaction FromAccount db block tx))) fromID =
           (lookup (accounts db) fromID)
             \<lparr>Balance := Balance (lookup (accounts db) fromID)
                          - clampedGasFee tx (lookup (accounts db) fromID)\<rparr>"
    using b1 by (simp add: upd lookup_def)
  show "lookup (accounts (snd (ApplyTransaction FromAccount db block tx)))
           (BeneficiaryID (Header block)) =
           (lookup (accounts db) (BeneficiaryID (Header block)))
             \<lparr>Balance := Balance (lookup (accounts db) (BeneficiaryID (Header block)))
                          + clampedGasFee tx (lookup (accounts db) fromID)\<rparr>"
    by (simp add: upd lookup_def [of "_(_ \<mapsto> _)"])
  show "accounts (snd (ApplyTransaction FromAccount db block tx)) k = accounts db k"
    if "k \<noteq> fromID" and "k \<noteq> BeneficiaryID (Header block)"
    using that by (simp add: upd)
qed

text \<open>
  The instance with three distinct accounts: \<open>''A''\<close> holds 1000 at nonce 7 and
  sends with nonce 5 and gas 1 times 5 in a block mined by \<open>''M''\<close>.
\<close>

lemma ApplyTransaction_nonce_too_small_scenario:
  "ApplyTransaction (signedBy ''A'')
     (exDb [''A'' \<mapsto> \<lparr>Balance = 1000, Nonce = 7\<rparr>, ''B'' \<mapsto> \<lparr>Balance = 0, Nonce = 0\<rparr>])
     (exBlock ''M'' []) (exTx 5 10 0 1 5) =
     (Some (NonceTooSmall 7 5),
      exDb [''A'' \<mapsto> \<lparr>Balance = 995, Nonce = 7\<rparr>, ''B'' \<mapsto> \<lparr>Balance = 0, Nonce = 0\<rparr>,
            ''M'' \<mapsto> \<lparr>Balance = 5, Nonce = 0\<rparr>])"
  by (simp add: ex_defs fun_upd_twist [of "''B''" "''A''"])

section \<open>Sender, recipient and beneficiary that coincide\<close>

text \<open>
  C2, at the input where the code departs from it. The sender \<open>''A''\<close> holds 1000 and
  is the beneficiary of the block; the transfer of value 100 and tip 10 with gas fee 5
  to \<open>''B''\<close> succeeds. The last write of the call stores the beneficiary's copy over
  the sender's entry: \<open>''A''\<close> ends with 1015 and its old nonce, \<open>''B''\<close> with 100,
  and the sum of all balances goes from 1000 to 1115.
\<close>

theorem ApplyTransaction_total_not_preserved:
  "ApplyTransaction (signedBy ''A'') (exDb [''A'' \<mapsto> \<lparr>Balance = 1000, Nonce = 0\<rparr>])
     (exBlock ''A'' []) (exTx 1 100 10 1 5) =
     (None,
      exDb [''A'' \<mapsto> \<lparr>Balance = 1015, Nonce = 0\<rparr>, ''B'' \<mapsto> \<lparr>Balance = 100, Nonce = 0\<rparr>]) \<and>
   totalBalance [''A'' \<mapsto> \<lparr>Balance = 1000, Nonce = 0\<rparr>] = 1000 \<and>
   totalBalance [''A'' \<mapsto> \<lparr>Balance = 1015, Nonce = 0\<rparr>, ''B'' \<mapsto> \<lparr>Balance = 100, Nonce = 0\<rparr>]
     = 1115"
  by (simp add: ex_defs totalBalance_def fun_upd_twist [of "''B''" "''A''"])

text \<open>
  C3, at the input where the code departs from it. The sender \<open>''A''\<close> holds 1000 at
  nonce 7 and is the beneficiary of the block; the transaction has nonce 5 and gas fee
  5. The call fails with the nonce error, and \<open>''A''\<close> ends with 1005: the entry
  written for the beneficiary replaces the one written for the sender.
\<close>

theorem ApplyTransaction_failed_check_beneficiary_sender:
  "ApplyTransaction (signedBy ''A'') (exDb [''A'' \<mapsto> \<lparr>Balance = 1000, Nonce = 7\<rparr>])
     (exBlock ''A'' []) (exTx 5 10 0 1 5) =
     (Some (NonceTooSmall 7 5), exDb [''A'' \<mapsto> \<lparr>Balance = 1005, Nonce = 7\<rparr>])"
  by (simp add: ex_defs)

text \<open>
  C4, at the input where the code departs from it. The sender \<open>''A''\<close> is the
  beneficiary of the block. The transaction with nonce 1 succeeds, the stored nonce of
  \<open>''A''\<close> stays 0, and the same transaction succeeds a second time.
\<close>

theorem ApplyTransaction_replay_same_nonce:
  "ApplyTransaction (signedBy ''A'') (exDb [''A'' \<mapsto> \<lparr>Balance = 1000, Nonce = 0\<rparr>])
     (exBlock ''A'' []) (exTx 1 100 10 1 5) =
     (None,
      exDb [''A'' \<mapsto> \<lparr>Balance = 1015, Nonce = 0\<rparr>, ''B'' \<mapsto> \<lparr>Balance = 100, Nonce = 0\<rparr>]) \<and>
   ApplyTransaction (signedBy ''A'')
     (exDb [''A'' \<mapsto> \<lparr>Balance = 1015, Nonce = 0\<rparr>, ''B'' \<mapsto> \<lparr>Balance = 100, Nonce = 0\<rparr>])
     (exBlock ''A'' []) (exTx 1 100 10 1 5) =
     (None,
      exDb [''A'' \<mapsto> \<lparr>Balance = 1030, Nonce = 0\<rparr>, ''B'' \<mapsto> \<lparr>Balance = 200, Nonce = 0\<rparr>])"
  by (simp add: ex_defs fun_upd_twist [of "''B''" "''A''"])

section \<open>Value and tip whose sum overflows\<close>

text \<open>
  C5, at the input where the code departs from it. The sender holds 10, the value is
  \<open>2^64 - 1\<close> and the tip is 2, with no gas. The sum of value and tip wraps to 1, the
  check of line 182 passes, and the debit of line 188 takes \<open>2^64 - 1\<close> from a
  balance of 10: as exact integers the balance is negative, in \<^verbatim>\<open>uint64\<close> it wraps,
  and the sender ends with 9.
\<close>

theorem ApplyTransaction_debit_wraps:
  "ApplyTransaction (signedBy ''A'') (exDb [''A'' \<mapsto> \<lparr>Balance = 10, Nonce = 0\<rparr>])
     (exBlock ''M'' []) (exTx 1 18446744073709551615 2 0 0) =
     (None,
      exDb [''A'' \<mapsto> \<lparr>Balance = 9, Nonce = 1\<rparr>,
            ''B'' \<mapsto> \<lparr>Balance = 18446744073709551615, Nonce = 0\<rparr>,
            ''M'' \<mapsto> \<lparr>Balance = 2, Nonce = 0\<rparr>]) \<and>
   int (unat ((10::u64)
          - clampedGasFee (exTx 1 18446744073709551615 2 0 0) \<lparr>Balance = 10, Nonce = 0\<rparr>))
     - int (unat (Value (exTx 1 18446744073709551615 2 0 0))) < 0"
  by (simp add: ex_defs wrapped_debit)

section \<open>The loop of ReadAllBlocks\<close>

text \<open>Moving the start of the cursor by one call.\<close>

lemma cursor_shift: "cursorAfter iter (snd (Next iter s)) n = cursorAfter iter s (Suc n)"
  by simp

lemma blockAt_shift: "blockAt iter (snd (Next iter s)) i = blockAt iter s (Suc i)"
  by (simp add: blockAt_def)

lemma errAt_shift: "errAt iter (snd (Next iter s)) i = errAt iter s (Suc i)"
  by (simp add: errAt_def)

lemma doneAfter_shift: "doneAfter iter (snd (Next iter s)) i = doneAfter iter s (Suc i)"
  by (simp add: doneAfter_def)

lemma prevAt_shift:
  "prevAt iter (snd (Next iter s)) (blockAt iter s 0) i = prevAt iter s latest (Suc i)"
  by (cases i) (simp_all add: prevAt_def blockAt_shift)

lemma goodCall_shift:
  "goodCall iter V validate (snd (Next iter s)) (blockAt iter s 0) i =
   goodCall iter V validate s latest (Suc i)"
  by (simp add: goodCall_def doneAfter_shift errAt_shift blockAt_shift
        prevAt_shift [where latest = latest])

lemma doneAfter_at: "doneAfter iter (cursorAfter iter s n) 0 = doneAfter iter s n"
  by (induction n arbitrary: s) (simp_all add: doneAfter_def)

lemma errAt_at: "errAt iter (cursorAfter iter s n) 0 = errAt iter s n"
  by (simp add: errAt_def)

lemma blockAt_at: "blockAt iter (cursorAfter iter s n) 0 = blockAt iter s n"
  by (simp add: blockAt_def)

lemma upt_map_shift: "map f [0..<Suc n] = f 0 # map (\<lambda>i. f (Suc i)) [0..<n]"
  by (simp add: upt_conv_Cons map_Suc_upt [symmetric] del: upt_Suc)

text \<open>One round of the loop, in each of the four ways it can go.\<close>

lemma loop_step:
  assumes "goodCall iter V validate s latest 0"
  shows "ReadAllBlocks_loop iter V validate s latest blocks =
         ReadAllBlocks_loop iter V validate (snd (Next iter s)) (blockAt iter s 0)
           (blocks @ [blockAt iter s 0])"
  using assms
  by (subst ReadAllBlocks_loop.simps)
     (simp add: goodCall_def doneAfter_def errAt_def blockAt_def prevAt_def Let_def)

lemma loop_done:
  assumes "doneAfter iter s 0"
  shows "ReadAllBlocks_loop iter V validate s latest blocks = Some (Inr blocks)"
  using assms
  by (subst ReadAllBlocks_loop.simps) (simp add: doneAfter_def Let_def)

lemma loop_next_error:
  assumes "\<not> doneAfter iter s 0" and "errAt iter s 0 = Some e"
  shows "ReadAllBlocks_loop iter V validate s latest blocks = Some (Inl e)"
  using assms
  by (subst ReadAllBlocks_loop.simps) (simp add: doneAfter_def errAt_def Let_def)

lemma loop_validate_error:
  assumes "\<not> doneAfter iter s 0" and "errAt iter s 0 = None"
    and "validate" and "V (blockAt iter s 0) latest = Some e"
  shows "ReadAllBlocks_loop iter V validate s latest blocks = Some (Inl e)"
  using assms
  by (subst ReadAllBlocks_loop.simps) (simp add: doneAfter_def errAt_def blockAt_def Let_def)

text \<open>After \<open>n\<close> good calls the loop stands at the cursor after \<open>n\<close> calls.\<close>

lemma loop_prefix:
  assumes "\<forall>i<n. goodCall iter V validate s latest i"
  shows "ReadAllBlocks_loop iter V validate s latest blocks =
         ReadAllBlocks_loop iter V validate (cursorAfter iter s n) (prevAt iter s latest n)
           (blocks @ map (blockAt iter s) [0..<n])"
  using assms
proof (induction n arbitrary: s latest blocks)
  case 0
  then show ?case by (simp add: prevAt_def)
next
  case (Suc n)
  from Suc.prems have g0: "goodCall iter V validate s latest 0" by simp
  from Suc.prems have rest:
    "\<forall>i<n. goodCall iter V validate (snd (Next iter s)) (blockAt iter s 0) i"
    by (simp add: goodCall_shift [where latest = latest])
  have "ReadAllBlocks_loop iter V validate s latest blocks =
        ReadAllBlocks_loop iter V validate (snd (Next iter s)) (blockAt iter s 0)
          (blocks @ [blockAt iter s 0])"
    using g0 by (rule loop_step)
  also have "\<dots> =
        ReadAllBlocks_loop iter V validate (cursorAfter iter (snd (Next iter s)) n)
          (prevAt iter (snd (Next iter s)) (blockAt iter s 0) n)
          ((blocks @ [blockAt iter s 0]) @ map (blockAt iter (snd (Next iter s))) [0..<n])"
    using rest by (rule Suc.IH)
  also have "\<dots> =
        ReadAllBlocks_loop iter V validate (cursorAfter iter s (Suc n))
          (prevAt iter s latest (Suc n)) (blocks @ map (blockAt iter s) [0..<Suc n])"
  proof -
    have "map (blockAt iter (snd (Next iter s))) [0..<n] =
          map (\<lambda>i. blockAt iter s (Suc i)) [0..<n]"
      by (simp add: blockAt_shift)
    then show ?thesis
      by (simp only: cursor_shift prevAt_shift [where latest = latest]
            upt_map_shift append_assoc append_Cons append_Nil)
  qed
  finally show ?case .
qed

lemma loop_returns:
  assumes "\<forall>i<n. goodCall iter V validate s latest i" and "doneAfter iter s n"
  shows "ReadAllBlocks_loop iter V validate s latest blocks =
         Some (Inr (blocks @ map (blockAt iter s) [0..<n]))"
proof -
  from assms(2) have "doneAfter iter (cursorAfter iter s n) 0"
    by (simp add: doneAfter_at)
  then have "ReadAllBlocks_loop iter V validate (cursorAfter iter s n) (prevAt iter s latest n)
       (blocks @ map (blockAt iter s) [0..<n]) = Some (Inr (blocks @ map (blockAt iter s) [0..<n]))"
    by (rule loop_done)
  with loop_prefix [OF assms(1)] show ?thesis by simp
qed

lemma loop_fails_next:
  assumes "\<forall>i<n. goodCall iter V validate s latest i"
    and "\<not> doneAfter iter s n" and "errAt iter s n = Some e"
  shows "ReadAllBlocks_loop iter V validate s latest blocks = Some (Inl e)"
proof -
  from assms(2,3) have "\<not> doneAfter iter (cursorAfter iter s n) 0"
    and "errAt iter (cursorAfter iter s n) 0 = Some e"
    by (simp_all add: doneAfter_at errAt_at)
  then have "ReadAllBlocks_loop iter V validate (cursorAfter iter s n) (prevAt iter s latest n)
       (blocks @ map (blockAt iter s) [0..<n]) = Some (Inl e)"
    by (rule loop_next_error)
  with loop_prefix [OF assms(1)] show ?thesis by simp
qed

lemma loop_fails_validate:
  assumes "\<forall>i<n. goodCall iter V validate s latest i"
    and "\<not> doneAfter iter s n" and "errAt iter s n = None"
    and "validate" and "V (blockAt iter s n) (prevAt iter s latest n) = Some e"
  shows "ReadAllBlocks_loop iter V validate s latest blocks = Some (Inl e)"
proof -
  from assms(2,3,5) have "\<not> doneAfter iter (cursorAfter iter s n) 0"
    and "errAt iter (cursorAfter iter s n) 0 = None"
    and "V (blockAt iter (cursorAfter iter s n) 0) (prevAt iter s latest n) = Some e"
    by (simp_all add: doneAfter_at errAt_at blockAt_at)
  then have "ReadAllBlocks_loop iter V validate (cursorAfter iter s n) (prevAt iter s latest n)
       (blocks @ map (blockAt iter s) [0..<n]) = Some (Inl e)"
    using assms(4) by (intro loop_validate_error)
  with loop_prefix [OF assms(1)] show ?thesis by simp
qed

text \<open>
  Conversely, by induction over the rounds the loop took to return: a list of blocks
  it returns has the shape \<open>returnedBlocks\<close>.
\<close>

lemma returnedBlocks_step:
  assumes IH: "\<And>iter V validate s latest blocks r.
        loop iter V validate s latest blocks = Some r \<Longrightarrow>
        returnedBlocks iter V validate s latest blocks r"
    and eq: "(let block = fst (fst (Next iter s)); err = snd (fst (Next iter s));
                  s' = snd (Next iter s)
              in if Done iter s' then Some (Inr blocks)
                 else case err of
                        Some e \<Rightarrow> Some (Inl e)
                      | None \<Rightarrow>
                         (case (if validate then V block latest else None) of
                            Some e \<Rightarrow> Some (Inl e)
                          | None \<Rightarrow> loop iter V validate s' block (blocks @ [block]))) = Some r"
  shows "returnedBlocks iter V validate s latest blocks r"
proof (cases "doneAfter iter s 0")
  case True
  with eq have "r = Inr blocks" by (simp add: doneAfter_def Let_def)
  with True show ?thesis
    unfolding returnedBlocks_def by (intro allI impI exI [of _ 0]) simp
next
  case nd: False
  show ?thesis
  proof (cases "goodCall iter V validate s latest 0")
    case False
    with nd eq have "\<exists>e. r = Inl e"
      by (auto simp: goodCall_def doneAfter_def errAt_def blockAt_def prevAt_def Let_def
            split: option.splits if_splits)
    then show ?thesis unfolding returnedBlocks_def by auto
  next
    case g0: True
    with nd eq have rec: "loop iter V validate (snd (Next iter s)) (blockAt iter s 0)
            (blocks @ [blockAt iter s 0]) = Some r"
      by (auto simp: goodCall_def doneAfter_def errAt_def blockAt_def prevAt_def Let_def
            split: option.splits if_splits)
    show ?thesis
      unfolding returnedBlocks_def
    proof (intro allI impI)
      fix bs assume "r = Inr bs"
      with IH [OF rec] obtain n where
        g: "\<forall>i<n. goodCall iter V validate (snd (Next iter s)) (blockAt iter s 0) i"
        and d: "doneAfter iter (snd (Next iter s)) n"
        and b: "bs = (blocks @ [blockAt iter s 0])
                   @ map (blockAt iter (snd (Next iter s))) [0..<n]"
        unfolding returnedBlocks_def by blast
      have g': "\<forall>i<Suc n. goodCall iter V validate s latest i"
      proof (intro allI impI)
        fix i assume "i < Suc n"
        then show "goodCall iter V validate s latest i"
          using g g0 by (cases i) (simp_all add: goodCall_shift [where latest = latest])
      qed
      have b': "bs = blocks @ map (blockAt iter s) [0..<Suc n]"
        using b by (simp add: blockAt_shift upt_map_shift del: upt_Suc)
      from g' d b'
      show "\<exists>n. (\<forall>i<n. goodCall iter V validate s latest i) \<and> doneAfter iter s n \<and>
                bs = blocks @ map (blockAt iter s) [0..<n]"
        by (intro exI [of _ "Suc n"]) (simp add: doneAfter_shift del: upt_Suc)
    qed
  qed
qed

lemma loop_returnedBlocks:
  assumes "ReadAllBlocks_loop iter V validate s latest blocks = Some r"
  shows "returnedBlocks iter V validate s latest blocks r"
proof (rule ReadAllBlocks_loop.raw_induct [where P = returnedBlocks, OF _ assms])
  fix loop :: "'a Iterator \<Rightarrow> (Block \<Rightarrow> Block \<Rightarrow> error option) \<Rightarrow> bool \<Rightarrow> 'a \<Rightarrow> Block
      \<Rightarrow> Block list \<Rightarrow> (error + Block list) option"
  fix iter V validate s latest blocks r
  assume IH: "\<And>iter V validate s latest blocks r.
        loop iter V validate s latest blocks = Some r \<Longrightarrow>
        returnedBlocks iter V validate s latest blocks r"
    and eq: "(let block = fst (fst (Next iter s)); err = snd (fst (Next iter s));
                  s' = snd (Next iter s)
              in if Done iter s' then Some (Inr blocks)
                 else case err of
                        None \<Rightarrow>
                         (case (if validate then V block latest else None) of
                            None \<Rightarrow> loop iter V validate s' block (blocks @ [block])
                          | Some e \<Rightarrow> Some (Inl e))
                      | Some e \<Rightarrow> Some (Inl e)) = Some r"
  from IH eq show "returnedBlocks iter V validate s latest blocks r"
    by (rule returnedBlocks_step)
qed

text \<open>
  A list of blocks that \<open>ReadAllBlocks\<close> returns is made of the blocks of the calls
  before the first call after which \<open>Done\<close> holds, and of nothing else.
\<close>

lemma ReadAllBlocks_Inr_only_before_done:
  assumes "ReadAllBlocks iter ValidateBlock s0 validate = Some (Inr bs)"
  shows "\<exists>n. (\<forall>i<n. \<not> doneAfter iter s0 i) \<and> doneAfter iter s0 n \<and>
             bs = map (blockAt iter s0) [0..<n]"
proof -
  from assms have "returnedBlocks iter ValidateBlock validate s0 zeroBlock [] (Inr bs)"
    unfolding ReadAllBlocks_def by (rule loop_returnedBlocks)
  then obtain n where "\<forall>i<n. goodCall iter ValidateBlock validate s0 zeroBlock i"
    and "doneAfter iter s0 n" and "bs = map (blockAt iter s0) [0..<n]"
    unfolding returnedBlocks_def by auto
  then show ?thesis by (auto simp: goodCall_def)
qed

section \<open>Blocks returned by ReadAllBlocks\<close>

text \<open>
  C8. Let \<open>Done\<close> be false after each of the first \<open>n\<close> calls of \<open>Next\<close> and true
  after the next call, and let none of the first \<open>n\<close> calls return an error or, when
  validation is on, a block that fails validation. Then \<open>ReadAllBlocks\<close> returns, in
  order, exactly the blocks of those \<open>n\<close> calls: \<open>Done\<close> is asked after each
  \<open>Next\<close> and before its block is used, so the block of the last call, after which
  \<open>Done\<close> holds, is not in the list.
\<close>

theorem ReadAllBlocks_returns_blocks_before_done:
  assumes notdone: "\<forall>i<n. \<not> doneAfter iter s0 i"
    and fin: "doneAfter iter s0 n"
    and noerr: "\<forall>i<n. errAt iter s0 i = None"
    and valid: "validate \<longrightarrow>
          (\<forall>i<n. ValidateBlock (blockAt iter s0 i) (prevAt iter s0 zeroBlock i) = None)"
  shows "ReadAllBlocks iter ValidateBlock s0 validate =
         Some (Inr (map (blockAt iter s0) [0..<n]))"
proof -
  have "\<forall>i<n. goodCall iter ValidateBlock validate s0 zeroBlock i"
    using notdone noerr valid by (simp add: goodCall_def)
  then have "ReadAllBlocks_loop iter ValidateBlock validate s0 zeroBlock [] =
             Some (Inr ([] @ map (blockAt iter s0) [0..<n]))"
    using fin by (rule loop_returns)
  then show ?thesis by (simp add: ReadAllBlocks_def)
qed

text \<open>
  The theorem at a cursor over two stored blocks: the third call returns the zero
  block and sets \<open>Done\<close>, and the list returned holds the two blocks only.
\<close>

theorem ReadAllBlocks_returns_blocks_before_done_witness:
  "ReadAllBlocks scriptIterator checkNumber
     ([(exBlock ''M'' [], None), (exBlock ''A'' [], None)], False) False =
   Some (Inr [exBlock ''M'' [], exBlock ''A'' []])"
  using ReadAllBlocks_returns_blocks_before_done [of "Suc (Suc 0)" scriptIterator
      "([(exBlock ''M'' [], None), (exBlock ''A'' [], None)], False)" False checkNumber]
  by (simp add: doneAfter_def errAt_def blockAt_def scriptIterator_def less_Suc_eq)

section \<open>Errors during startup\<close>

text \<open>What \<open>New\<close> returns, from what \<open>ReadAllBlocks\<close> returns.\<close>

lemma New_read_error:
  assumes "ReadAllBlocks iter V s0 True = Some (Inl e)"
  shows "New FromAccount ToAccountID V iter s0 gen = Some (Inl e)"
  using assms by (simp add: New_def)

lemma latest_of_map:
  "(if 0 < length (map f [0..<n]) then map f [0..<n] ! (length (map f [0..<n]) - 1) else z) =
   (if 0 < n then f (n - 1) else z)"
  by (simp del: upt_Suc)

lemma New_read_blocks:
  assumes "ReadAllBlocks iter V s0 True = Some (Inr (map (blockAt iter s0) [0..<n]))"
  shows "New FromAccount ToAccountID V iter s0 gen =
    (case seedBalances ToAccountID (gen_Balances gen) Map.empty of
       Inl e \<Rightarrow> Some (Inl e)
     | Inr accts \<Rightarrow>
        Some (Inr (replayBlocks FromAccount
          \<lparr>genesis = gen,
           latestBlock = (if 0 < n then blockAt iter s0 (n - 1) else zeroBlock),
           accounts = accts\<rparr> (map (blockAt iter s0) [0..<n]))))"
proof -
  have "New FromAccount ToAccountID V iter s0 gen =
    (case seedBalances ToAccountID (gen_Balances gen) Map.empty of
       Inl e \<Rightarrow> Some (Inl e)
     | Inr accts \<Rightarrow>
        Some (Inr (replayBlocks FromAccount
          \<lparr>genesis = gen,
           latestBlock =
             (if 0 < length (map (blockAt iter s0) [0..<n])
              then map (blockAt iter s0) [0..<n] ! (length (map (blockAt iter s0) [0..<n]) - 1)
              else zeroBlock),
           accounts = accts\<rparr> (map (blockAt iter s0) [0..<n]))))"
    unfolding New_def assms by simp
  then show ?thesis by (simp only: latest_of_map)
qed

text \<open>
  C7, as amended. Let the first \<open>n\<close> calls of \<open>Next\<close> during startup be good:
  \<open>Done\<close> is false after each, none returns an error, and each block is valid.
  If \<open>Done\<close> is false after the next call and that call returns an error, \<open>New\<close>
  returns that error. If \<open>Done\<close> is false after it and its block fails
  \<open>ValidateBlock\<close>, \<open>New\<close> returns the validation error. If \<open>Done\<close> is true after
  it, the call's block and error are not looked at: \<open>New\<close> returns the error of
  \<open>ToAccountID\<close> if a genesis balance has a bad identifier, and otherwise returns
  the database obtained by replaying the \<open>n\<close> blocks, whatever \<open>ApplyTransaction\<close>
  returned for their transactions.
\<close>

theorem New_returns_read_and_validation_errors:
  assumes good: "\<forall>i<n. goodCall iter V True s0 zeroBlock i"
  shows "(\<not> doneAfter iter s0 n \<and> errAt iter s0 n = Some e \<longrightarrow>
            New FromAccount ToAccountID V iter s0 gen = Some (Inl e)) \<and>
         (\<not> doneAfter iter s0 n \<and> errAt iter s0 n = None \<and>
            V (blockAt iter s0 n) (prevAt iter s0 zeroBlock n) = Some e \<longrightarrow>
            New FromAccount ToAccountID V iter s0 gen = Some (Inl e)) \<and>
         (doneAfter iter s0 n \<and>
            seedBalances ToAccountID (gen_Balances gen) Map.empty = Inl e \<longrightarrow>
            New FromAccount ToAccountID V iter s0 gen = Some (Inl e)) \<and>
         (doneAfter iter s0 n \<and>
            seedBalances ToAccountID (gen_Balances gen) Map.empty = Inr accts \<longrightarrow>
            New FromAccount ToAccountID V iter s0 gen =
            Some (Inr (replayBlocks FromAccount
              \<lparr>genesis = gen,
               latestBlock = (if 0 < n then blockAt iter s0 (n - 1) else zeroBlock),
               accounts = accts\<rparr> (map (blockAt iter s0) [0..<n]))))"
proof (intro conjI impI)
  assume "\<not> doneAfter iter s0 n \<and> errAt iter s0 n = Some e"
  then have nd: "\<not> doneAfter iter s0 n" and er: "errAt iter s0 n = Some e"
    by simp_all
  from good nd er have "ReadAllBlocks_loop iter V True s0 zeroBlock [] = Some (Inl e)"
    by (rule loop_fails_next)
  then show "New FromAccount ToAccountID V iter s0 gen = Some (Inl e)"
    by (simp add: New_def ReadAllBlocks_def)
next
  assume "\<not> doneAfter iter s0 n \<and> errAt iter s0 n = None \<and>
          V (blockAt iter s0 n) (prevAt iter s0 zeroBlock n) = Some e"
  then have nd: "\<not> doneAfter iter s0 n" and er: "errAt iter s0 n = None"
    and ve: "V (blockAt iter s0 n) (prevAt iter s0 zeroBlock n) = Some e"
    by simp_all
  from good nd er TrueI ve
  have "ReadAllBlocks_loop iter V True s0 zeroBlock [] = Some (Inl e)"
    by (rule loop_fails_validate)
  then show "New FromAccount ToAccountID V iter s0 gen = Some (Inl e)"
    by (simp add: New_def ReadAllBlocks_def)
next
  assume a: "doneAfter iter s0 n \<and>
             seedBalances ToAccountID (gen_Balances gen) Map.empty = Inl e"
  with good have "ReadAllBlocks iter V s0 True = Some (Inr (map (blockAt iter s0) [0..<n]))"
    unfolding ReadAllBlocks_def by (simp add: loop_returns [where n = n])
  from New_read_blocks [OF this] a
  show "New FromAccount ToAccountID V iter s0 gen = Some (Inl e)" by simp
next
  assume a: "doneAfter iter s0 n \<and>
             seedBalances ToAccountID (gen_Balances gen) Map.empty = Inr accts"
  with good have "ReadAllBlocks iter V s0 True = Some (Inr (map (blockAt iter s0) [0..<n]))"
    unfolding ReadAllBlocks_def by (simp add: loop_returns [where n = n])
  from New_read_blocks [OF this] a
  show "New FromAccount ToAccountID V iter s0 gen =
        Some (Inr (replayBlocks FromAccount
          \<lparr>genesis = gen,
           latestBlock = (if 0 < n then blockAt iter s0 (n - 1) else zeroBlock),
           accounts = accts\<rparr> (map (blockAt iter s0) [0..<n])))" by simp
qed


text \<open>
  The theorem at three stored chains, each starting with a valid block 1: one where
  the second \<open>Next\<close> fails, one where the second block is numbered 1 again, and one
  that ends after the first block.
\<close>

theorem New_returns_read_and_validation_errors_witness:
  "New (signedBy ''A'') parseAccountID checkNumber scriptIterator
     ([(exBlock ''M'' [], None), (zeroBlock, Some (External ''read failed''))], False) exGenesis
     = Some (Inl (External ''read failed'')) \<and>
   New (signedBy ''A'') parseAccountID checkNumber scriptIterator
     ([(exBlock ''M'' [], None), (exBlock ''M'' [], None)], False) exGenesis
     = Some (Inl (External ''wrong block number'')) \<and>
   New (signedBy ''A'') parseAccountID checkNumber scriptIterator
     ([(exBlock ''M'' [], None)], False) exGenesis
     = Some (Inr \<lparr>genesis = exGenesis, latestBlock = exBlock ''M'' [],
          accounts = [''A'' \<mapsto> \<lparr>Balance = 1000, Nonce = 0\<rparr>,
                      ''M'' \<mapsto> \<lparr>Balance = 700, Nonce = 0\<rparr>]\<rparr>)"
  using New_returns_read_and_validation_errors [where n = "Suc 0" and iter = scriptIterator
      and V = checkNumber and FromAccount = "signedBy ''A''" and ToAccountID = parseAccountID
      and gen = exGenesis and e = "External ''read failed''"
      and ?s0.0 = "([(exBlock ''M'' [], None), (zeroBlock, Some (External ''read failed''))], False)"]
    New_returns_read_and_validation_errors [where n = "Suc 0" and iter = scriptIterator
      and V = checkNumber and FromAccount = "signedBy ''A''" and ToAccountID = parseAccountID
      and gen = exGenesis and e = "External ''wrong block number''"
      and ?s0.0 = "([(exBlock ''M'' [], None), (exBlock ''M'' [], None)], False)"]
    New_returns_read_and_validation_errors [where n = "Suc 0" and iter = scriptIterator
      and V = checkNumber and FromAccount = "signedBy ''A''" and ToAccountID = parseAccountID
      and gen = exGenesis and accts = "[''A'' \<mapsto> \<lparr>Balance = 1000, Nonce = 0\<rparr>]"
      and ?s0.0 = "([(exBlock ''M'' [], None)], False)"]
  by (simp add: goodCall_def doneAfter_def errAt_def blockAt_def prevAt_def scriptIterator_def
        checkNumber_def parseAccountID_def exBlock_def exGenesis_def zeroBlock_def
        ApplyMiningReward_def lookup_def zeroAccount_def)

text \<open>
  The claim as it is written fails for a stored chain of one valid block whose only
  transaction carries chain id 2 on chain 1. \<open>ApplyTransaction\<close> returns the
  wrong-chain-id error for it; \<open>New\<close> returns no error but the database, in which the
  sender has paid the gas fee 5 and the miner holds the fee and the reward 700.
\<close>

theorem New_drops_ApplyTransaction_error_counterexample:
  "fst (ApplyTransaction (signedBy ''A'') (exDb [''A'' \<mapsto> \<lparr>Balance = 1000, Nonce = 0\<rparr>])
         (exBlock ''M'' [(exTx 1 100 10 1 5)\<lparr>ChainID := 2\<rparr>])
         ((exTx 1 100 10 1 5)\<lparr>ChainID := 2\<rparr>)) = Some (WrongChainID 2 1) \<and>
   New (signedBy ''A'') parseAccountID checkNumber scriptIterator
     ([(exBlock ''M'' [(exTx 1 100 10 1 5)\<lparr>ChainID := 2\<rparr>], None)], False) exGenesis
     = Some (Inr \<lparr>genesis = exGenesis,
          latestBlock = exBlock ''M'' [(exTx 1 100 10 1 5)\<lparr>ChainID := 2\<rparr>],
          accounts = [''A'' \<mapsto> \<lparr>Balance = 995, Nonce = 0\<rparr>,
                      ''M'' \<mapsto> \<lparr>Balance = 705, Nonce = 0\<rparr>]\<rparr>)"
proof -
  let ?b = "exBlock ''M'' [(exTx 1 100 10 1 5)\<lparr>ChainID := 2\<rparr>]"
  let ?s = "([(?b, None)], False)"
  have "ReadAllBlocks_loop scriptIterator checkNumber True ?s zeroBlock [] =
        Some (Inr ([] @ map (blockAt scriptIterator ?s) [0..<Suc 0]))"
    by (rule loop_returns)
       (simp_all add: goodCall_def doneAfter_def errAt_def blockAt_def prevAt_def
          scriptIterator_def checkNumber_def exBlock_def zeroBlock_def)
  then have "ReadAllBlocks scriptIterator checkNumber ?s True =
        Some (Inr (map (blockAt scriptIterator ?s) [0..<Suc 0]))"
    by (simp add: ReadAllBlocks_def)
  from New_read_blocks [OF this, of "signedBy ''A''" parseAccountID exGenesis]
  show ?thesis
    by (simp add: blockAt_def scriptIterator_def parseAccountID_def ApplyMiningReward_def
          ex_defs)
qed

section \<open>Adding the peers of a peer\<close>

lemma afterAdding_Cons:
  "afterAdding addPeerNode st (peer # peers) =
   afterAdding addPeerNode (snd (addPeerNode st peer)) peers"
  by (simp add: afterAdding_def)

text \<open>The loop over a prefix of peers that are all added.\<close>

lemma addNewPeers_loop_added:
  assumes "\<forall>i<length ok.
             fst (addPeerNode (afterAdding addPeerNode st (take i ok)) (ok ! i)) = None"
  shows "addNewPeers_loop addPeerNode (ok @ rest) st evs =
         addNewPeers_loop addPeerNode rest (afterAdding addPeerNode st ok)
           (evs @ map AddingPeerNode ok)"
  using assms
proof (induction ok arbitrary: st evs)
  case Nil
  then show ?case by (simp add: afterAdding_def)
next
  case (Cons peer ok)
  from Cons.prems have first: "fst (addPeerNode st peer) = None"
    by (auto simp: afterAdding_def dest: spec [of _ 0])
  have later: "\<forall>i<length ok.
      fst (addPeerNode (afterAdding addPeerNode (snd (addPeerNode st peer)) (take i ok)) (ok ! i))
        = None"
  proof (intro allI impI)
    fix i assume "i < length ok"
    with Cons.prems
    have "fst (addPeerNode (afterAdding addPeerNode st (take (Suc i) (peer # ok)))
                 ((peer # ok) ! Suc i)) = None"
      by (auto dest: spec [of _ "Suc i"])
    then show "fst (addPeerNode
        (afterAdding addPeerNode (snd (addPeerNode st peer)) (take i ok)) (ok ! i)) = None"
      by (simp add: afterAdding_Cons)
  qed
  from first have "addNewPeers_loop addPeerNode ((peer # ok) @ rest) st evs =
        addNewPeers_loop addPeerNode (ok @ rest) (snd (addPeerNode st peer))
          (evs @ [AddingPeerNode peer])"
    by (cases "addPeerNode st peer") simp
  also have "\<dots> = addNewPeers_loop addPeerNode rest
        (afterAdding addPeerNode (snd (addPeerNode st peer)) ok)
        ((evs @ [AddingPeerNode peer]) @ map AddingPeerNode ok)"
    using later by (rule Cons.IH)
  finally show ?case by (simp add: afterAdding_Cons)
qed

text \<open>
  C9. Let \<open>addPeerNode\<close> succeed on each peer of the list \<open>ok\<close>, called in list order
  from the state \<open>st\<close>. If it fails on the next peer, \<open>addNewPeers\<close> on \<open>ok\<close>, that
  peer and any further peers \<open>rest\<close> returns \<^verbatim>\<open>nil\<close>, with the state that the
  failing call left and an adding event for each peer of \<open>ok\<close>: the result is the
  same for every \<open>rest\<close>, so no later peer is attempted. If the list is \<open>ok\<close> alone,
  every peer is added and \<^verbatim>\<open>nil\<close> is returned.
\<close>

theorem addNewPeers_stops_at_first_error:
  assumes "\<forall>i<length ok.
             fst (addPeerNode (afterAdding addPeerNode st (take i ok)) (ok ! i)) = None"
  shows "(fst (addPeerNode (afterAdding addPeerNode st ok) peer) \<noteq> None \<longrightarrow>
            addNewPeers addPeerNode (ok @ peer # rest) st =
              (None, snd (addPeerNode (afterAdding addPeerNode st ok) peer),
               AddNewPeersStarted # map AddingPeerNode ok @ [AddNewPeersCompleted])) \<and>
         addNewPeers addPeerNode ok st =
           (None, afterAdding addPeerNode st ok,
            AddNewPeersStarted # map AddingPeerNode ok @ [AddNewPeersCompleted])"
proof (intro conjI impI)
  assume "fst (addPeerNode (afterAdding addPeerNode st ok) peer) \<noteq> None"
  then obtain err st' where
    "addPeerNode (afterAdding addPeerNode st ok) peer = (Some err, st')"
    by (cases "addPeerNode (afterAdding addPeerNode st ok) peer") auto
  with addNewPeers_loop_added [OF assms, of "peer # rest" "[AddNewPeersStarted]"]
  show "addNewPeers addPeerNode (ok @ peer # rest) st =
          (None, snd (addPeerNode (afterAdding addPeerNode st ok) peer),
           AddNewPeersStarted # map AddingPeerNode ok @ [AddNewPeersCompleted])"
    by (simp add: addNewPeers_def)
next
  from addNewPeers_loop_added [OF assms, of "[]" "[AddNewPeersStarted]"]
  show "addNewPeers addPeerNode ok st =
          (None, afterAdding addPeerNode st ok,
           AddNewPeersStarted # map AddingPeerNode ok @ [AddNewPeersCompleted])"
    by (simp add: addNewPeers_def)
qed

text \<open>
  The theorem at a node that knows host \<open>''h1''\<close> and is told of \<open>''h2''\<close>,
  \<open>''h1''\<close> and \<open>''h3''\<close>: \<open>''h2''\<close> is added, \<open>''h1''\<close> is a duplicate, and
  \<open>''h3''\<close> is neither added nor passed to \<open>addPeerNode\<close>.
\<close>

theorem addNewPeers_stops_at_first_error_witness:
  "addNewPeers addLogged [\<lparr>Host = ''h2''\<rparr>, \<lparr>Host = ''h1''\<rparr>, \<lparr>Host = ''h3''\<rparr>]
     ([''h1''], []) =
     (None, ([''h1'', ''h2''], [\<lparr>Host = ''h2''\<rparr>, \<lparr>Host = ''h1''\<rparr>]),
      [AddNewPeersStarted, AddingPeerNode \<lparr>Host = ''h2''\<rparr>, AddNewPeersCompleted]) \<and>
   addNewPeers addLogged [\<lparr>Host = ''h2''\<rparr>] ([''h1''], []) =
     (None, ([''h1'', ''h2''], [\<lparr>Host = ''h2''\<rparr>]),
      [AddNewPeersStarted, AddingPeerNode \<lparr>Host = ''h2''\<rparr>, AddNewPeersCompleted])"
  using addNewPeers_stops_at_first_error [where ok = "[\<lparr>Host = ''h2''\<rparr>]"
      and addPeerNode = addLogged and st = "([''h1''], [])" and peer = "\<lparr>Host = ''h1''\<rparr>"
      and rest = "[\<lparr>Host = ''h3''\<rparr>]"]
  by (simp add: afterAdding_def addLogged_def addToList_def)

end
